theory Spec2Isabelle
  imports Main "HOL-Library.Word"
begin

section \<open>The JSON Schema Registry codec of confluent\_kafka.schema\_registry.json\_schema\<close>

text \<open>
  The development embeds \<^verbatim>\<open>JsonSerializer\<close> and \<^verbatim>\<open>JsonDeserializer\<close> of
  \<^verbatim>\<open>src/confluent_kafka/schema_registry/json_schema.py\<close>. Python exceptions are values
  of the type \<open>error\<close>; a call that can raise returns \<open>error + 'a\<close>. The mutable
  fields of a serializer and the calls it makes to the registry client are threaded
  through as explicit state.
\<close>

subsection \<open>Python values, bytes and exceptions\<close>

type_synonym byte = "8 word"

text \<open>
  The objects handed to the codec. \<open>PyStr\<close> is a text string whose code points are
  below 256 (one HOL character each); floats are left out.
\<close>

datatype pyval =
    PyNone
  | PyBool bool
  | PyInt int
  | PyStr string
  | PyList "pyval list"
  | PyTuple "pyval list"
  | PyDict "(pyval \<times> pyval) list"

text \<open>
  The three \<^verbatim>\<open>raise SerializationError(...)\<close> sites of the module, by their message:
  \<open>TooSmall v\<close> is \<^verbatim>\<open>"message is too small to decode {}".format(v)\<close>,
  \<open>NoMagicByte\<close> is \<^verbatim>\<open>"message does not start with magic byte"\<close>, and
  \<open>Violation m\<close> is \<^verbatim>\<open>SerializationError(ve.message)\<close>.
\<close>

datatype ser_msg = TooSmall "byte list" | NoMagicByte | Violation string

datatype error =
    SerializationError ser_msg
  | ValueError string
  | TypeError
  | AttributeError
  | KeyError
  | StructError
  | ValidationError string
  | SchemaError string
  | JSONDecodeError
  | RegistryError string
  | HookError string

record SerializationContext =
  topic :: string
  field :: string

subsection \<open>Names imported from modules that are not among the sources\<close>

text \<open>
  Modelled from the spec: \<^verbatim>\<open>_MAGIC_BYTE\<close> is imported from
  \<^verbatim>\<open>confluent_kafka.schema_registry\<close>, whose \<^verbatim>\<open>__init__\<close> is missing; the spec
  gives the wire format as "byte 0: magic marker, fixed value (0x00)".
\<close>

definition MAGIC_BYTE :: int where
  "MAGIC_BYTE = 0"

text \<open>
  Modelled from the spec: \<^verbatim>\<open>topic_subject_name_strategy\<close> is imported from the same
  missing module; the spec gives the topic-based strategy as
  \<^verbatim>\<open>{stream name}-{message role}\<close>, a total function of the context and the schema name.
\<close>

definition topic_subject_name_strategy :: "SerializationContext \<Rightarrow> pyval \<Rightarrow> error + string" where
  "topic_subject_name_strategy ctx record_name = Inr (topic ctx @ ''-'' @ field ctx)"

subsection \<open>struct.pack and struct.unpack with the format '>bI'\<close>

text \<open>
  \<^verbatim>\<open>'>bI'\<close> is big-endian without padding: one signed byte, then an unsigned 32-bit
  integer. \<^verbatim>\<open>struct.pack\<close> raises \<^verbatim>\<open>struct.error\<close> when an argument is out of range for
  its code or is not an integer (here: the schema id still being \<^verbatim>\<open>None\<close>).
\<close>

definition struct_pack_bI :: "int \<Rightarrow> int option \<Rightarrow> error + byte list" where
  "struct_pack_bI b i =
     (case i of
        None \<Rightarrow> Inl StructError
      | Some n \<Rightarrow>
          if - 128 \<le> b \<and> b \<le> 127 \<and> 0 \<le> n \<and> n < 4294967296
          then Inr [word_of_int b,
                    word_of_int (n div 16777216), word_of_int (n div 65536),
                    word_of_int (n div 256), word_of_int n]
          else Inl StructError)"

definition big_endian_u32 :: "byte list \<Rightarrow> int" where
  "big_endian_u32 bs = foldl (\<lambda>acc b. acc * 256 + uint b) 0 bs"

definition struct_unpack_bI :: "byte list \<Rightarrow> error + (int \<times> int)" where
  "struct_unpack_bI bs =
     (if length bs = 5 then Inr (sint (hd bs), big_endian_u32 (tl bs)) else Inl StructError)"

subsection \<open>JsonDeserializer\<close>

text \<open>
  \<^verbatim>\<open>__slots__ = ['_schema', '_registry', '_from_dict']\<close>; \<^verbatim>\<open>__call__\<close> reads
  \<^verbatim>\<open>_from_dict\<close> only. \<open>None\<close> is Python's \<^verbatim>\<open>None\<close> (no materializer configured).
\<close>

record JsonDeserializer =
  d_schema :: pyval
  from_dict :: "(SerializationContext \<Rightarrow> pyval \<Rightarrow> error + pyval) option"

text \<open>
  \<^verbatim>\<open>JsonDeserializer.__call__(ctx, value)\<close>. The argument is \<open>None\<close> for Python's
  \<^verbatim>\<open>None\<close> and \<open>Some bs\<close> for a bytes object. The first statement is
  \<^verbatim>\<open>len(value)\<close>, which raises \<^verbatim>\<open>TypeError\<close> on \<^verbatim>\<open>None\<close>. The standard library's
  \<^verbatim>\<open>json.loads\<close>, as called by the source, is the parameter \<open>json_loads\<close>.
  \<^verbatim>\<open>payload.read(5)\<close> is \<open>take 5\<close> and the following \<^verbatim>\<open>payload.read()\<close> is \<open>drop 5\<close>.
\<close>

definition JsonDeserializer_call ::
  "(byte list \<Rightarrow> error + pyval) \<Rightarrow> 'a JsonDeserializer_scheme \<Rightarrow> SerializationContext \<Rightarrow>
     byte list option \<Rightarrow> error + pyval" where
  "JsonDeserializer_call json_loads self ctx value =
     (case value of
        None \<Rightarrow> Inl TypeError
      | Some bs \<Rightarrow>
          if length bs \<le> 5 then Inl (SerializationError (TooSmall bs))
          else
            (case struct_unpack_bI (take 5 bs) of
               Inl e \<Rightarrow> Inl e
             | Inr (magic, schema_id) \<Rightarrow>
                 if magic \<noteq> MAGIC_BYTE then Inl (SerializationError NoMagicByte)
                 else
                   (case json_loads (drop 5 bs) of
                      Inl e \<Rightarrow> Inl e
                    | Inr obj_dict \<Rightarrow>
                        (case from_dict self of
                           None \<Rightarrow> Inr obj_dict
                         | Some f \<Rightarrow> f ctx obj_dict))))"

subsection \<open>json.dump\<close>

text \<open>
  The module calls \<^verbatim>\<open>json.dump(value, fo, value)\<close>: the structured value is passed a
  second time, as a third positional argument, and \<^verbatim>\<open>fo\<close> is an \<^verbatim>\<open>io.BytesIO\<close>.
  What the call does depends on the interpreter:
  \<^item> Python 3 raises \<^verbatim>\<open>TypeError\<close>. From 3.6 on, every parameter of \<^verbatim>\<open>json.dump\<close>
    after \<^verbatim>\<open>fp\<close> is keyword-only, so the call itself is rejected; before 3.6 the call
    binds, and the first \<^verbatim>\<open>fp.write(chunk)\<close> fails because the chunk is a \<^verbatim>\<open>str\<close> and
    the file is binary.
  \<^item> Python 2.7 binds the third argument to \<^verbatim>\<open>skipkeys\<close> and writes the chunks of
    \<^verbatim>\<open>JSONEncoder(skipkeys=value).iterencode(value)\<close>, with the default separators
    \<^verbatim>\<open>', '\<close> and \<^verbatim>\<open>': '\<close> and \<^verbatim>\<open>ensure_ascii=True\<close>.
  The module is written for both (\<^verbatim>\<open>_ContextStringIO\<close>, and the \<^verbatim>\<open>encoding\<close> keyword of
  \<^verbatim>\<open>json.loads\<close>), so the interpreter is a parameter of the model.
\<close>

datatype python = Python2 | Python3

fun truthy :: "pyval \<Rightarrow> bool" where
  "truthy PyNone = False"
| "truthy (PyBool b) = b"
| "truthy (PyInt i) = (i \<noteq> 0)"
| "truthy (PyStr s) = (s \<noteq> [])"
| "truthy (PyList xs) = (xs \<noteq> [])"
| "truthy (PyTuple xs) = (xs \<noteq> [])"
| "truthy (PyDict kvs) = (kvs \<noteq> [])"

definition digit_char :: "nat \<Rightarrow> char" where
  "digit_char d = char_of (48 + d)"

fun digits :: "nat \<Rightarrow> string" where
  "digits n = (if n < 10 then [digit_char n] else digits (n div 10) @ [digit_char (n mod 10)])"

declare digits.simps [simp del]

text \<open>\<^verbatim>\<open>str(i)\<close> for an integer.\<close>

definition str_int :: "int \<Rightarrow> string" where
  "str_int i = (if i < 0 then CHR ''-'' # digits (nat (- i)) else digits (nat i))"

definition hex_char :: "nat \<Rightarrow> char" where
  "hex_char d = (if d < 10 then char_of (48 + d) else char_of (87 + d))"

text \<open>
  \<^verbatim>\<open>encode_basestring_ascii\<close>: the quote (0x22) and the backslash (0x5C) are escaped,
  the control characters with a short escape get it, and every other character outside
  \<^verbatim>\<open>' '..'~'\<close> is written as \<^verbatim>\<open>\u00xx\<close>.
\<close>

definition escape_char :: "char \<Rightarrow> string" where
  "escape_char c =
     (if c = CHR 0x22 then [CHR 0x5C, CHR 0x22]
      else if c = CHR 0x5C then [CHR 0x5C, CHR 0x5C]
      else if c = CHR 0x08 then [CHR 0x5C, CHR ''b'']
      else if c = CHR 0x0C then [CHR 0x5C, CHR ''f'']
      else if c = CHR 0x0A then [CHR 0x5C, CHR ''n'']
      else if c = CHR 0x0D then [CHR 0x5C, CHR ''r'']
      else if c = CHR 0x09 then [CHR 0x5C, CHR ''t'']
      else if (of_char c :: nat) < 32 \<or> 126 < (of_char c :: nat)
        then [CHR 0x5C, CHR ''u'', CHR ''0'', CHR ''0'',
              hex_char ((of_char c :: nat) div 16), hex_char ((of_char c :: nat) mod 16)]
      else [c])"

definition encode_basestring_ascii :: "string \<Rightarrow> string" where
  "encode_basestring_ascii s = CHR 0x22 # concat (map escape_char s) @ [CHR 0x22]"

fun join :: "string \<Rightarrow> string list \<Rightarrow> string" where
  "join sep [] = []"
| "join sep [x] = x"
| "join sep (x # y # ys) = x @ sep @ join sep (y # ys)"

text \<open>
  The key of a dictionary item: a string is kept, \<^verbatim>\<open>True\<close>, \<^verbatim>\<open>False\<close>, \<^verbatim>\<open>None\<close> and
  integers are converted, and any other key is skipped under \<^verbatim>\<open>skipkeys\<close> and a
  \<^verbatim>\<open>TypeError\<close> otherwise.
\<close>

definition key_text :: "pyval \<Rightarrow> string option" where
  "key_text key =
     (case key of
        PyStr s \<Rightarrow> Some s
      | PyBool b \<Rightarrow> Some (if b then ''true'' else ''false'')
      | PyNone \<Rightarrow> Some ''null''
      | PyInt i \<Rightarrow> Some (str_int i)
      | _ \<Rightarrow> None)"

fun iterencode :: "bool \<Rightarrow> pyval \<Rightarrow> error + string"
  and iterencode_list :: "bool \<Rightarrow> pyval list \<Rightarrow> error + string list"
  and iterencode_dict :: "bool \<Rightarrow> (pyval \<times> pyval) list \<Rightarrow> error + string list"
where
  "iterencode skipkeys PyNone = Inr ''null''"
| "iterencode skipkeys (PyBool b) = Inr (if b then ''true'' else ''false'')"
| "iterencode skipkeys (PyInt i) = Inr (str_int i)"
| "iterencode skipkeys (PyStr s) = Inr (encode_basestring_ascii s)"
| "iterencode skipkeys (PyList xs) =
     (case iterencode_list skipkeys xs of
        Inl e \<Rightarrow> Inl e
      | Inr ts \<Rightarrow> Inr (''['' @ join '', '' ts @ '']''))"
| "iterencode skipkeys (PyTuple xs) =
     (case iterencode_list skipkeys xs of
        Inl e \<Rightarrow> Inl e
      | Inr ts \<Rightarrow> Inr (''['' @ join '', '' ts @ '']''))"
| "iterencode skipkeys (PyDict kvs) =
     (case iterencode_dict skipkeys kvs of
        Inl e \<Rightarrow> Inl e
      | Inr ts \<Rightarrow> Inr (''{'' @ join '', '' ts @ ''}''))"
| "iterencode_list skipkeys [] = Inr []"
| "iterencode_list skipkeys (x # xs) =
     (case iterencode skipkeys x of
        Inl e \<Rightarrow> Inl e
      | Inr t \<Rightarrow>
          (case iterencode_list skipkeys xs of Inl e \<Rightarrow> Inl e | Inr ts \<Rightarrow> Inr (t # ts)))"
| "iterencode_dict skipkeys [] = Inr []"
| "iterencode_dict skipkeys ((k, v) # kvs) =
     (case key_text k of
        None \<Rightarrow> if skipkeys then iterencode_dict skipkeys kvs else Inl TypeError
      | Some kt \<Rightarrow>
          (case iterencode skipkeys v of
             Inl e \<Rightarrow> Inl e
           | Inr t \<Rightarrow>
               (case iterencode_dict skipkeys kvs of
                  Inl e \<Rightarrow> Inl e
                | Inr ts \<Rightarrow> Inr ((encode_basestring_ascii kt @ '': '' @ t) # ts))))"

text \<open>
  \<^verbatim>\<open>json.dump(obj, fp, skipkeys)\<close> with three positional arguments and a binary file whose
  content so far is \<open>fp\<close>; the result is the content afterwards.
\<close>

definition json_dump :: "python \<Rightarrow> pyval \<Rightarrow> byte list \<Rightarrow> pyval \<Rightarrow> error + byte list" where
  "json_dump py obj fp skipkeys =
     (case py of
        Python3 \<Rightarrow> Inl TypeError
      | Python2 \<Rightarrow>
          (case iterencode (truthy skipkeys) obj of
             Inl e \<Rightarrow> Inl e
           | Inr text \<Rightarrow> Inr (fp @ map of_char text)))"

subsection \<open>The registry client\<close>

text \<open>
  \<^verbatim>\<open>Schema(schema_str, schema_type)\<close>. The registry client is an external collaborator:
  a call returns a schema id or raises, and its answer may depend on the calls made
  before. Every call is recorded, with its result, in a log that is threaded through
  the serializer's calls. \<^verbatim>\<open>lookup_schema\<close> returns a registered schema of which the
  module reads \<^verbatim>\<open>schema_id\<close> only; the model returns that id.
\<close>

datatype Schema = Schema string string

datatype reg_op = Register | Lookup

record reg_event =
  ev_op :: reg_op
  ev_subject :: string
  ev_result :: "error + int"

record SchemaRegistryClient =
  register_schema :: "reg_event list \<Rightarrow> string \<Rightarrow> Schema \<Rightarrow> error + int"
  lookup_schema :: "reg_event list \<Rightarrow> string \<Rightarrow> Schema \<Rightarrow> error + int"

subsection \<open>JsonSerializer\<close>

text \<open>
  An argument that is either a plain value or a callable of type \<open>'f\<close>:
  \<^verbatim>\<open>callable(x)\<close> holds of \<open>Callable f\<close> only, \<^verbatim>\<open>x is None\<close> of \<open>Plain PyNone\<close> only, and
  \<^verbatim>\<open>isinstance(x, bool)\<close> of \<open>Plain (PyBool b)\<close> only.
\<close>

datatype 'f pyobj = Plain pyval | Callable 'f

type_synonym hook = "SerializationContext \<Rightarrow> pyval \<Rightarrow> error + pyval"
type_synonym strategy = "SerializationContext \<Rightarrow> pyval \<Rightarrow> error + string"
type_synonym conf = "string \<rightharpoonup> strategy pyobj"

record JsonSerializer =
  registry :: SchemaRegistryClient
  schema_id :: "int option"
  known_subjects :: "string set"
  to_dict :: "hook option"
  auto_register :: bool
  subject_name_func :: strategy
  schema_name :: pyval
  parsed_schema :: pyval
  schema :: Schema

definition default_conf :: conf where
  "default_conf = [''auto.register.schemas'' \<mapsto> Plain (PyBool True),
                   ''subject.name.strategy'' \<mapsto> Callable topic_subject_name_strategy]"

text \<open>\<^verbatim>\<open>d.pop(key)\<close>: the value and the dictionary without the key, or \<^verbatim>\<open>KeyError\<close>.\<close>

definition dict_pop :: "('k \<rightharpoonup> 'v) \<Rightarrow> 'k \<Rightarrow> error + ('v \<times> ('k \<rightharpoonup> 'v))" where
  "dict_pop d k = (case d k of None \<Rightarrow> Inl KeyError | Some v \<Rightarrow> Inr (v, d(k := None)))"

text \<open>
  \<^verbatim>\<open>schema_dict.get('title', None)\<close>: only a dictionary has the method; on any other
  JSON value the attribute lookup raises \<^verbatim>\<open>AttributeError\<close>.
\<close>

definition get_title :: "pyval \<Rightarrow> error + pyval" where
  "get_title schema_dict =
     (case schema_dict of
        PyDict kvs \<Rightarrow>
          (case map_of kvs (PyStr ''title'') of None \<Rightarrow> Inr PyNone | Some v \<Rightarrow> Inr v)
      | _ \<Rightarrow> Inl AttributeError)"

definition callable :: "'f pyobj \<Rightarrow> bool" where
  "callable x = (case x of Callable f \<Rightarrow> True | Plain v \<Rightarrow> False)"

definition as_callable :: "'f pyobj \<Rightarrow> 'f option" where
  "as_callable x = (case x of Callable f \<Rightarrow> Some f | Plain v \<Rightarrow> None)"

definition as_bool :: "'f pyobj \<Rightarrow> bool option" where
  "as_bool x = (case x of Plain (PyBool b) \<Rightarrow> Some b | _ \<Rightarrow> None)"

text \<open>
  \<^verbatim>\<open>JsonSerializer.__init__(schema_registry_client, schema_str, to_dict, conf)\<close>, in the
  order of the source. \<open>conf_arg = None\<close> is Python's \<^verbatim>\<open>None\<close>. The standard library's
  \<^verbatim>\<open>json.loads\<close> on the schema text is the parameter \<open>json_loads\<close>. The message of the
  unrecognized-properties error is kept without the formatted key list.
\<close>

definition JsonSerializer_init ::
  "(string \<Rightarrow> error + pyval) \<Rightarrow> SchemaRegistryClient \<Rightarrow> string \<Rightarrow> hook pyobj \<Rightarrow>
     conf option \<Rightarrow> error + JsonSerializer" where
  "JsonSerializer_init json_loads schema_registry_client schema_str to_dict_arg conf_arg =
     (if to_dict_arg \<noteq> Plain PyNone \<and> \<not> callable to_dict_arg
      then Inl (ValueError ''to_dict must be callable with the signature to_dict(Serialization Context, object)->dict'')
      else
        (let conf_copy = (case conf_arg of None \<Rightarrow> default_conf | Some c \<Rightarrow> default_conf ++ c) in
         case dict_pop conf_copy ''auto.register.schemas'' of
           Inl e \<Rightarrow> Inl e
         | Inr (auto_register_v, conf_copy1) \<Rightarrow>
             (case as_bool auto_register_v of
                None \<Rightarrow> Inl (ValueError ''auto.register.schemas must be a boolean value'')
              | Some auto_register_b \<Rightarrow>
                  (case dict_pop conf_copy1 ''subject.name.strategy'' of
                     Inl e \<Rightarrow> Inl e
                   | Inr (subject_name_func_v, conf_copy2) \<Rightarrow>
                       (case as_callable subject_name_func_v of
                          None \<Rightarrow> Inl (ValueError ''subject.name.strategy must be callable'')
                        | Some subject_name_f \<Rightarrow>
                            if dom conf_copy2 \<noteq> {} then Inl (ValueError ''Unrecognized properties'')
                            else
                              (case json_loads schema_str of
                                 Inl e \<Rightarrow> Inl e
                               | Inr schema_dict \<Rightarrow>
                                   (case get_title schema_dict of
                                      Inl e \<Rightarrow> Inl e
                                    | Inr schema_name_v \<Rightarrow>
                                        if schema_name_v = PyNone
                                        then Inl (ValueError ''Missing required JSON schema annotation Title'')
                                        else Inr \<lparr>registry = schema_registry_client,
                                                  schema_id = None,
                                                  known_subjects = {},
                                                  to_dict = as_callable to_dict_arg,
                                                  auto_register = auto_register_b,
                                                  subject_name_func = subject_name_f,
                                                  schema_name = schema_name_v,
                                                  parsed_schema = schema_dict,
                                                  schema = Schema schema_str ''JSON''\<rparr>)))))))"

text \<open>
  Lines 171 to 182 of \<^verbatim>\<open>__call__\<close>: the registration gate. The result is the exception
  raised by the registry client, if any, the serializer and the log afterwards. When
  the client raises, the assignment and \<^verbatim>\<open>_known_subjects.add\<close> are not reached.
\<close>

definition ensure_registered ::
  "string \<Rightarrow> JsonSerializer \<Rightarrow> reg_event list \<Rightarrow> error option \<times> JsonSerializer \<times> reg_event list" where
  "ensure_registered subject self log =
     (if auto_register self \<and> subject \<notin> known_subjects self then
        (let r = register_schema (registry self) log subject (schema self);
             log' = log @ [\<lparr>ev_op = Register, ev_subject = subject, ev_result = r\<rparr>]
         in case r of
              Inl e \<Rightarrow> (Some e, self, log')
            | Inr i \<Rightarrow>
                (None,
                 self\<lparr>schema_id := Some i, known_subjects := insert subject (known_subjects self)\<rparr>,
                 log'))
      else if \<not> auto_register self \<and> subject \<notin> known_subjects self then
        (let r = lookup_schema (registry self) log subject (schema self);
             log' = log @ [\<lparr>ev_op = Lookup, ev_subject = subject, ev_result = r\<rparr>]
         in case r of
              Inl e \<Rightarrow> (Some e, self, log')
            | Inr i \<Rightarrow>
                (None,
                 self\<lparr>schema_id := Some i, known_subjects := insert subject (known_subjects self)\<rparr>,
                 log'))
      else (None, self, log))"

text \<open>
  \<^verbatim>\<open>except ValidationError as ve: raise SerializationError(ve.message)\<close>; any other
  exception of the validator propagates.
\<close>

definition except_ValidationError :: "error \<Rightarrow> error" where
  "except_ValidationError e =
     (case e of ValidationError m \<Rightarrow> SerializationError (Violation m) | _ \<Rightarrow> e)"

text \<open>
  Lines 184 to 200 of \<^verbatim>\<open>__call__\<close>: projection, validation and framing. The validator
  \<^verbatim>\<open>jsonschema.validate(instance, schema)\<close> is the parameter \<open>validate\<close>. The buffer
  \<^verbatim>\<open>fo\<close> starts empty; on an exception its content is discarded with it, so the
  result is either the complete value of the buffer or the exception.
\<close>

definition frame_value ::
  "python \<Rightarrow> (pyval \<Rightarrow> pyval \<Rightarrow> error + unit) \<Rightarrow> SerializationContext \<Rightarrow> pyval \<Rightarrow>
     JsonSerializer \<Rightarrow> error + byte list" where
  "frame_value py validate ctx obj self =
     (case (case to_dict self of None \<Rightarrow> Inr obj | Some f \<Rightarrow> f ctx obj) of
        Inl e \<Rightarrow> Inl e
      | Inr value \<Rightarrow>
          (case validate value (parsed_schema self) of
             Inl e \<Rightarrow> Inl (except_ValidationError e)
           | Inr u \<Rightarrow>
               (case struct_pack_bI MAGIC_BYTE (schema_id self) of
                  Inl e \<Rightarrow> Inl e
                | Inr header \<Rightarrow> json_dump py value ([] @ header) value)))"

text \<open>
  \<^verbatim>\<open>JsonSerializer.__call__(ctx, obj)\<close>. The result \<open>Inr None\<close> is Python's \<^verbatim>\<open>None\<close>,
  \<open>Inr (Some frame)\<close> the bytes returned; the serializer and the registry log are
  returned as they are after the call, also when it raises.
\<close>

definition JsonSerializer_call ::
  "python \<Rightarrow> (pyval \<Rightarrow> pyval \<Rightarrow> error + unit) \<Rightarrow> SerializationContext \<Rightarrow> pyval \<Rightarrow>
     JsonSerializer \<Rightarrow> reg_event list \<Rightarrow>
     (error + byte list option) \<times> JsonSerializer \<times> reg_event list" where
  "JsonSerializer_call py validate ctx obj self log =
     (if obj = PyNone then (Inr None, self, log)
      else
        (case subject_name_func self ctx (schema_name self) of
           Inl e \<Rightarrow> (Inl e, self, log)
         | Inr subject \<Rightarrow>
             (case ensure_registered subject self log of
                (Some e, self', log') \<Rightarrow> (Inl e, self', log')
              | (None, self', log') \<Rightarrow>
                  (case frame_value py validate ctx obj self' of
                     Inl e \<Rightarrow> (Inl e, self', log')
                   | Inr frame \<Rightarrow> (Inr (Some frame), self', log')))))"

text \<open>
  A caller encoding a sequence of messages with one serializer, going on after a call
  that raised. The result is the serializer and the registry log after the last call.
\<close>

fun serialize_all ::
  "python \<Rightarrow> (pyval \<Rightarrow> pyval \<Rightarrow> error + unit) \<Rightarrow> (SerializationContext \<times> pyval) list \<Rightarrow>
     JsonSerializer \<Rightarrow> reg_event list \<Rightarrow> JsonSerializer \<times> reg_event list" where
  "serialize_all py validate [] self log = (self, log)"
| "serialize_all py validate ((ctx, obj) # rest) self log =
     (case JsonSerializer_call py validate ctx obj self log of
        (r, self', log') \<Rightarrow> serialize_all py validate rest self' log')"

subsection \<open>Reading the registry log\<close>

text \<open>
  The id returned by the most recent registry call that returned one, if any. The log
  is in the order of the calls; an event whose result is \<open>Inl\<close> is a call that raised.
\<close>

fun last_returned_id :: "reg_event list \<Rightarrow> int option" where
  "last_returned_id [] = None"
| "last_returned_id (ev # evs) =
     (case last_returned_id evs of
        Some i \<Rightarrow> Some i
      | None \<Rightarrow> (case ev_result ev of Inr i \<Rightarrow> Some i | Inl e \<Rightarrow> None))"

text \<open>
  The state of the gate when every call is for one subject: once the subject is cached
  the last call in the log returned and it is the only one that did, and before that
  every call in the log raised.
\<close>

definition one_subject_inv :: "string \<Rightarrow> JsonSerializer \<Rightarrow> reg_event list \<Rightarrow> bool" where
  "one_subject_inv subject self log =
     (if subject \<in> known_subjects self
      then \<exists>log0 ev. log = log0 @ [ev] \<and> \<not> isl (ev_result ev) \<and> (\<forall>e \<in> set log0. isl (ev_result e))
      else \<forall>e \<in> set log. isl (ev_result e))"

section \<open>Concrete collaborators and inputs\<close>

text \<open>
  The scenario of the specification: the schema \<^verbatim>\<open>User\<close> with the required property
  \<^verbatim>\<open>name\<close>, the value \<^verbatim>\<open>{"name": "Ada"}\<close>, the topic \<^verbatim>\<open>users\<close>. The collaborators
  are stand-ins: a validator that knows the keyword \<^verbatim>\<open>required\<close> only, a registry that
  hands out the ids 1, 2, ... in the order of the calls, and a registry that is down.
\<close>

definition required_validate :: "pyval \<Rightarrow> pyval \<Rightarrow> error + unit" where
  "required_validate instance sch =
     (case (instance, sch) of
        (PyDict kvs, PyDict skvs) \<Rightarrow>
          (case map_of skvs (PyStr ''required'') of
             Some (PyList names) \<Rightarrow>
               (case filter (\<lambda>n. map_of kvs n = None) names of
                  [] \<Rightarrow> Inr ()
                | n # ns \<Rightarrow> Inl (ValidationError ''a required property is missing''))
           | _ \<Rightarrow> Inr ())
      | _ \<Rightarrow> Inr ())"

definition User_schema :: pyval where
  "User_schema = PyDict [(PyStr ''title'', PyStr ''User''), (PyStr ''type'', PyStr ''object''),
     (PyStr ''properties'', PyDict [(PyStr ''name'', PyDict [(PyStr ''type'', PyStr ''string'')])]),
     (PyStr ''required'', PyList [PyStr ''name''])]"

definition User_schema_str :: string where
  \<open>User_schema_str = ''{"title":"User","type":"object","properties":{"name":{"type":"string"}},"required":["name"]}''\<close>

definition counting_registry :: SchemaRegistryClient where
  "counting_registry = \<lparr>register_schema = (\<lambda>log subject sch. Inr (int (length log) + 1)),
                         lookup_schema = (\<lambda>log subject sch. Inr (int (length log) + 1))\<rparr>"

definition down_registry :: SchemaRegistryClient where
  "down_registry = \<lparr>register_schema = (\<lambda>log subject sch. Inl (RegistryError ''unavailable'')),
                     lookup_schema = (\<lambda>log subject sch. Inl (RegistryError ''unavailable''))\<rparr>"

definition User_serializer :: "SchemaRegistryClient \<Rightarrow> JsonSerializer" where
  "User_serializer client = \<lparr>registry = client, schema_id = None, known_subjects = {},
     to_dict = None, auto_register = True, subject_name_func = topic_subject_name_strategy,
     schema_name = PyStr ''User'', parsed_schema = User_schema,
     schema = Schema User_schema_str ''JSON''\<rparr>"

definition users_value :: SerializationContext where
  "users_value = \<lparr>topic = ''users'', field = ''value''\<rparr>"

definition orders_value :: SerializationContext where
  "orders_value = \<lparr>topic = ''orders'', field = ''value''\<rparr>"

definition Ada :: pyval where
  "Ada = PyDict [(PyStr ''name'', PyStr ''Ada'')]"

definition Ada_frame :: "int \<Rightarrow> byte list" where
  \<open>Ada_frame i = [0, 0, 0, 0, word_of_int i] @ map of_char ''{"name": "Ada"}''\<close>

text \<open>
  The results of \<^verbatim>\<open>json.loads\<close> on the two schema texts used below: the schema
  \<^verbatim>\<open>User\<close>, and the boolean schema \<^verbatim>\<open>true\<close>.
\<close>

definition User_loads :: "string \<Rightarrow> error + pyval" where
  "User_loads s = (if s = User_schema_str then Inr User_schema else Inl JSONDecodeError)"

definition true_loads :: "string \<Rightarrow> error + pyval" where
  "true_loads s = (if s = ''true'' then Inr (PyBool True) else Inl JSONDecodeError)"

text \<open>
  One serializer used for two topics: the state and the log after encoding one message
  for \<^verbatim>\<open>users\<close> and then one for \<^verbatim>\<open>orders\<close>; and the log after three messages for
  \<^verbatim>\<open>users\<close>.
\<close>

definition two_subjects :: JsonSerializer where
  "two_subjects = (User_serializer counting_registry)\<lparr>schema_id := Some 2,
      known_subjects := {''orders-value'', ''users-value''}\<rparr>"

definition two_subjects_log :: "reg_event list" where
  "two_subjects_log = [\<lparr>ev_op = Register, ev_subject = ''users-value'', ev_result = Inr 1\<rparr>,
                       \<lparr>ev_op = Register, ev_subject = ''orders-value'', ev_result = Inr 2\<rparr>]"

definition users_log :: "reg_event list" where
  "users_log = [\<lparr>ev_op = Register, ev_subject = ''users-value'', ev_result = Inr 1\<rparr>]"

lemmas demo_defs = required_validate_def User_schema_def counting_registry_def down_registry_def
  User_serializer_def users_value_def orders_value_def Ada_def Ada_frame_def
  topic_subject_name_strategy_def

lemmas call_defs = JsonSerializer_call_def ensure_registered_def frame_value_def json_dump_def
  struct_pack_bI_def MAGIC_BYTE_def key_text_def encode_basestring_ascii_def escape_char_def
  except_ValidationError_def Let_def

section \<open>Properties of the framing primitives\<close>

lemma struct_unpack_bI_take5:
  "5 < length bs \<Longrightarrow>
     struct_unpack_bI (take 5 bs) = Inr (sint (hd bs), big_endian_u32 (tl (take 5 bs)))"
  by (cases bs) (simp_all add: struct_unpack_bI_def)

lemma sint_byte_eq_0: "sint (b :: byte) = 0 \<longleftrightarrow> b = 0"
  by (metis sint_0 signed_eq_0_iff)

lemma base256_recompose:
  "n = a * 256 + n0 \<Longrightarrow> a = b * 256 + a0 \<Longrightarrow> b = c * 256 + b0 \<Longrightarrow>
     ((c * 256 + b0) * 256 + a0) * 256 + n0 = (n::int)"
  by simp

lemma top_byte_bounds:
  fixes n :: int
  assumes "0 \<le> n" and "n < 4294967296"
  shows "0 \<le> n div 16777216" and "n div 16777216 < 256"
proof -
  show "0 \<le> n div 16777216"
    using assms(1) by (simp add: pos_imp_zdiv_nonneg_iff)
  have e: "n = n div 16777216 * 16777216 + n mod 16777216"
    by (rule div_mult_mod_eq [symmetric])
  have m: "0 \<le> n mod 16777216"
    by simp
  show "n div 16777216 < 256"
  proof (rule ccontr)
    assume "\<not> n div 16777216 < 256"
    then have "256 \<le> n div 16777216" by simp
    then have "256 * 16777216 \<le> n div 16777216 * 16777216"
      by (rule mult_right_mono) simp
    with e m assms(2) show False by linarith
  qed
qed

lemma base256_digits:
  fixes n :: int
  assumes "0 \<le> n" and "n < 4294967296"
  shows "((n div 16777216 mod 256 * 256 + n div 65536 mod 256) * 256 + n div 256 mod 256) * 256
           + n mod 256 = n"
proof -
  define a where "a = n div 256"
  define b where "b = a div 256"
  define c where "c = b div 256"
  have b_eq: "n div 65536 = b"
    unfolding b_def a_def by (simp add: div_mult2_eq [symmetric])
  have c_eq: "n div 16777216 = c"
    unfolding c_def b_def a_def by (simp add: div_mult2_eq [symmetric])
  have "0 \<le> c" "c < 256"
    using top_byte_bounds [OF assms] unfolding c_eq by blast+
  then have c_mod: "c mod 256 = c" by simp
  have n_a: "n = a * 256 + n mod 256" unfolding a_def by (rule div_mult_mod_eq [symmetric])
  have a_b: "a = b * 256 + a mod 256" unfolding b_def by (rule div_mult_mod_eq [symmetric])
  have b_c: "b = c * 256 + b mod 256" unfolding c_def by (rule div_mult_mod_eq [symmetric])
  have "((c * 256 + b mod 256) * 256 + a mod 256) * 256 + n mod 256 = n"
    by (rule base256_recompose [OF n_a a_b b_c])
  then show ?thesis
    unfolding b_eq c_eq c_mod a_def [symmetric] .
qed

text \<open>A packed header has five bytes, starts with the marker and reads back as the id.\<close>

lemma struct_pack_bI_Inr:
  assumes "struct_pack_bI b i = Inr h"
  shows "length h = 5 \<and> hd h = word_of_int b \<and> (\<exists>n. i = Some n \<and> big_endian_u32 (tl h) = n)"
proof (cases i)
  case None
  with assms show ?thesis by (simp add: struct_pack_bI_def)
next
  case (Some n)
  with assms have rng: "0 \<le> n" "n < 4294967296"
    and h: "h = [word_of_int b, word_of_int (n div 16777216), word_of_int (n div 65536),
                 word_of_int (n div 256), word_of_int n]"
    by (auto simp: struct_pack_bI_def split: if_splits)
  have "big_endian_u32 (tl h) =
      ((n div 16777216 mod 256 * 256 + n div 65536 mod 256) * 256 + n div 256 mod 256) * 256
           + n mod 256"
    by (simp add: h big_endian_u32_def uint_word_of_int take_bit_eq_mod)
  also have "\<dots> = n"
    by (rule base256_digits [OF rng])
  finally have "big_endian_u32 (tl h) = n" .
  with Some h show ?thesis by simp
qed

text \<open>The encoder never yields the empty text.\<close>

lemma iterencode_nonempty: "iterencode sk v = Inr t \<Longrightarrow> t \<noteq> []"
  by (cases v)
     (auto simp: encode_basestring_ascii_def str_int_def digits.simps [of "nat _"]
           split: sum.splits if_splits)

lemma json_dump_Inr:
  "json_dump py obj fp sk = Inr out \<Longrightarrow> \<exists>payload. out = fp @ payload \<and> payload \<noteq> []"
  by (auto simp: json_dump_def dest: iterencode_nonempty split: python.splits sum.splits)

lemma frame_value_Inr:
  assumes "frame_value py validate ctx obj self = Inr frame"
  shows "\<exists>i. schema_id self = Some i \<and> 5 < length frame \<and> frame ! 0 = word_of_int MAGIC_BYTE \<and>
          big_endian_u32 (take 4 (drop 1 frame)) = i"
proof -
  from assms obtain header v where p: "struct_pack_bI MAGIC_BYTE (schema_id self) = Inr header"
    and d: "json_dump py v header v = Inr frame"
    by (auto simp: frame_value_def split: sum.splits)
  from struct_pack_bI_Inr [OF p] obtain n where h: "length header = 5"
     "hd header = word_of_int MAGIC_BYTE" "schema_id self = Some n" "big_endian_u32 (tl header) = n"
    by blast
  from json_dump_Inr [OF d] obtain payload where f: "frame = header @ payload" "payload \<noteq> []"
    by blast
  from h(1) obtain b0 b1 b2 b3 b4 where hh: "header = [b0, b1, b2, b3, b4]"
    by (auto simp: length_Suc_conv eval_nat_numeral)
  show ?thesis using h f hh by (cases payload) auto
qed

section \<open>Properties of the registration gate\<close>

lemma ensure_registered_None:
  assumes "ensure_registered subject self log = (None, self', log')"
  shows "(log' = log \<and> self' = self) \<or>
         (\<exists>i ev. log' = log @ [ev] \<and> ev_result ev = Inr i \<and> schema_id self' = Some i)"
  using assms by (auto simp: ensure_registered_def Let_def split: if_splits sum.splits)

lemma ensure_registered_fields:
  assumes "ensure_registered subject self log = (r, self', log')"
  shows "to_dict self' = to_dict self \<and> parsed_schema self' = parsed_schema self \<and>
         subject_name_func self' = subject_name_func self \<and> schema_name self' = schema_name self \<and>
         auto_register self' = auto_register self \<and> registry self' = registry self \<and>
         schema self' = schema self"
  using assms by (auto simp: ensure_registered_def Let_def split: if_splits sum.splits)

lemma ensure_registered_cases:
  assumes "ensure_registered subject self log = (r, self', log')"
  shows "(subject \<in> known_subjects self \<and> r = None \<and> self' = self \<and> log' = log) \<or>
         (\<exists>ev e. subject \<notin> known_subjects self \<and> log' = log @ [ev] \<and> ev_subject ev = subject \<and>
             ev_result ev = Inl e \<and> r = Some e \<and> self' = self) \<or>
         (\<exists>ev i. subject \<notin> known_subjects self \<and> log' = log @ [ev] \<and> ev_subject ev = subject \<and>
             ev_result ev = Inr i \<and> r = None \<and>
             self' = self\<lparr>schema_id := Some i,
                           known_subjects := insert subject (known_subjects self)\<rparr>)"
  using assms by (auto simp: ensure_registered_def Let_def split: if_splits sum.splits)

lemma JsonSerializer_call_state:
  assumes "JsonSerializer_call py validate ctx obj self log = (r, self', log')"
  shows "(self' = self \<and> log' = log) \<or>
         (\<exists>subject g. subject_name_func self ctx (schema_name self) = Inr subject \<and>
            ensure_registered subject self log = (g, self', log'))"
  using assms
  by (auto simp: JsonSerializer_call_def split: if_splits sum.splits prod.splits option.splits)

lemma last_returned_id_snoc:
  "last_returned_id (log @ [ev]) =
     (case ev_result ev of Inr i \<Rightarrow> Some i | Inl e \<Rightarrow> last_returned_id log)"
  by (induction log) (auto split: option.splits sum.splits)

lemma call_keeps_last_id:
  assumes "schema_id self = last_returned_id log"
    and "JsonSerializer_call py validate ctx obj self log = (r, self', log')"
  shows "schema_id self' = last_returned_id log'"
proof -
  from JsonSerializer_call_state [OF assms(2)] show ?thesis
  proof
    assume "self' = self \<and> log' = log"
    with assms(1) show ?thesis by simp
  next
    assume "\<exists>subject g. subject_name_func self ctx (schema_name self) = Inr subject \<and>
            ensure_registered subject self log = (g, self', log')"
    then obtain subject g where "ensure_registered subject self log = (g, self', log')" by blast
    from ensure_registered_cases [OF this] assms(1) show ?thesis
      by (auto simp: last_returned_id_snoc)
  qed
qed

lemma serialize_all_keeps_last_id:
  "schema_id self = last_returned_id log \<Longrightarrow>
   serialize_all py validate inputs self log = (self', log') \<Longrightarrow>
   schema_id self' = last_returned_id log'"
proof (induction inputs arbitrary: self log)
  case Nil
  then show ?case by simp
next
  case (Cons a inputs)
  obtain ctx obj where a: "a = (ctx, obj)" by (cases a)
  obtain r s1 l1 where c: "JsonSerializer_call py validate ctx obj self log = (r, s1, l1)"
    by (cases "JsonSerializer_call py validate ctx obj self log")
  from call_keeps_last_id [OF Cons.prems(1) c] have "schema_id s1 = last_returned_id l1" .
  moreover from Cons.prems(2) a c have "serialize_all py validate inputs s1 l1 = (self', log')"
    by simp
  ultimately show ?case by (rule Cons.IH)
qed

lemma cached_call_frames_cached_id:
  assumes "subject_name_func self ctx (schema_name self) = Inr subject"
    and "subject \<in> known_subjects self"
    and "JsonSerializer_call py validate ctx obj self log = (Inr (Some frame), self', log')"
  shows "self' = self \<and> log' = log \<and>
         (\<exists>i. schema_id self = Some i \<and> big_endian_u32 (take 4 (drop 1 frame)) = i)"
proof -
  from assms(2) have g: "ensure_registered subject self log = (None, self, log)"
    by (simp add: ensure_registered_def)
  with assms(1,3) have st: "self' = self" "log' = log"
    and f: "frame_value py validate ctx obj self = Inr frame"
    by (auto simp: JsonSerializer_call_def split: if_splits sum.splits)
  from frame_value_Inr [OF f] st show ?thesis by blast
qed

lemma call_one_subject_inv:
  assumes "one_subject_inv subject self log"
    and "subject_name_func self ctx (schema_name self) = Inr subject"
    and "JsonSerializer_call py validate ctx obj self log = (r, self', log')"
  shows "one_subject_inv subject self' log' \<and> subject_name_func self' = subject_name_func self \<and>
         schema_name self' = schema_name self"
proof -
  from JsonSerializer_call_state [OF assms(3)] show ?thesis
  proof
    assume "self' = self \<and> log' = log"
    with assms(1) show ?thesis by simp
  next
    assume "\<exists>subject g. subject_name_func self ctx (schema_name self) = Inr subject \<and>
            ensure_registered subject self log = (g, self', log')"
    with assms(2) obtain g where g: "ensure_registered subject self log = (g, self', log')"
      by auto
    from ensure_registered_fields [OF g]
    have f: "subject_name_func self' = subject_name_func self" "schema_name self' = schema_name self"
      by simp_all
    from ensure_registered_cases [OF g] assms(1) have "one_subject_inv subject self' log'"
      by (auto simp: one_subject_inv_def)
    with f show ?thesis by simp
  qed
qed

lemma serialize_all_one_subject_inv:
  "one_subject_inv subject self log \<Longrightarrow>
   \<forall>(ctx, obj) \<in> set inputs. subject_name_func self ctx (schema_name self) = Inr subject \<Longrightarrow>
   serialize_all py validate inputs self log = (self', log') \<Longrightarrow>
   one_subject_inv subject self' log'"
proof (induction inputs arbitrary: self log)
  case Nil
  then show ?case by simp
next
  case (Cons a inputs)
  obtain ctx obj where a: "a = (ctx, obj)" by (cases a)
  obtain r s1 l1 where c: "JsonSerializer_call py validate ctx obj self log = (r, s1, l1)"
    by (cases "JsonSerializer_call py validate ctx obj self log")
  from Cons.prems(2) a have res: "subject_name_func self ctx (schema_name self) = Inr subject"
    by simp
  note step = call_one_subject_inv [OF Cons.prems(1) res c]
  from step have i1: "one_subject_inv subject s1 l1" by blast
  from step Cons.prems(2)
  have r1: "\<forall>(ctx, obj) \<in> set inputs. subject_name_func s1 ctx (schema_name s1) = Inr subject"
    by simp
  from Cons.prems(3) a c have "serialize_all py validate inputs s1 l1 = (self', log')"
    by simp
  from Cons.IH [OF i1 r1 this] show ?case .
qed

lemma one_subject_inv_returned:
  assumes "one_subject_inv subject self log"
  shows "length (filter (\<lambda>ev. \<not> isl (ev_result ev)) log) \<le> 1 \<and>
         (\<forall>i < length log. \<not> isl (ev_result (log ! i)) \<longrightarrow> Suc i = length log)"
proof (cases "subject \<in> known_subjects self")
  case True
  with assms obtain log0 ev where l: "log = log0 @ [ev]" "\<not> isl (ev_result ev)"
    "\<forall>e \<in> set log0. isl (ev_result e)"
    by (auto simp: one_subject_inv_def)
  from l(3) have "filter (\<lambda>ev. \<not> isl (ev_result ev)) log0 = []"
    by (simp add: filter_empty_conv)
  with l have c1: "length (filter (\<lambda>ev. \<not> isl (ev_result ev)) log) \<le> 1" by simp
  have c2: "Suc i = length log" if "i < length log" "\<not> isl (ev_result (log ! i))" for i
  proof (rule ccontr)
    assume "Suc i \<noteq> length log"
    with that(1) l(1) have "i < length log0" by simp
    with l(1,3) have "isl (ev_result (log ! i))" by (simp add: nth_append)
    with that(2) show False by simp
  qed
  from c1 c2 show ?thesis by blast
next
  case False
  with assms have all: "\<forall>e \<in> set log. isl (ev_result e)"
    by (simp add: one_subject_inv_def)
  then have "filter (\<lambda>ev. \<not> isl (ev_result ev)) log = []"
    by (simp add: filter_empty_conv)
  moreover from all have "\<forall>i < length log. isl (ev_result (log ! i))" by simp
  ultimately show ?thesis by simp
qed

section \<open>Properties of the constructor\<close>

lemma effective_conf_keys:
  "\<exists>v. (case conf_arg of None \<Rightarrow> default_conf | Some c \<Rightarrow> default_conf ++ c) ''auto.register.schemas'' = Some v"
  "\<exists>v. (case conf_arg of None \<Rightarrow> default_conf | Some c \<Rightarrow> default_conf ++ c) ''subject.name.strategy'' = Some v"
  by (auto simp: default_conf_def map_add_def split: option.splits)

lemma as_bool_Some: "as_bool x = Some b \<longleftrightarrow> x = Plain (PyBool b)"
  by (auto simp: as_bool_def split: pyobj.splits pyval.splits)

lemma as_bool_None: "as_bool x = None \<longleftrightarrow> (\<forall>b. x \<noteq> Plain (PyBool b))"
  by (auto simp: as_bool_def split: pyobj.splits pyval.splits)

lemma as_callable_Some: "as_callable x = Some f \<longleftrightarrow> x = Callable f"
  by (auto simp: as_callable_def split: pyobj.splits)

lemma as_callable_None: "as_callable x = None \<longleftrightarrow> (\<forall>f. x \<noteq> Callable f)"
  by (auto simp: as_callable_def split: pyobj.splits)

lemma leftover_keys:
  "dom (cc(a := None, b := None)) \<noteq> {} \<longleftrightarrow> (\<exists>k \<in> dom cc. k \<noteq> a \<and> k \<noteq> b)"
  by (auto simp: dom_def)

lemma get_title_dict:
  "get_title (PyDict kvs) = Inr (case map_of kvs (PyStr ''title'') of None \<Rightarrow> PyNone | Some v \<Rightarrow> v)"
  by (simp add: get_title_def split: option.splits)

lemma User_serializer_init:
  "JsonSerializer_init User_loads client User_schema_str (Plain PyNone) None
     = Inr (User_serializer client)"
  by (simp add: JsonSerializer_init_def default_conf_def dict_pop_def as_bool_def as_callable_def
        get_title_def callable_def User_schema_def User_serializer_def User_loads_def)

section \<open>The scenarios\<close>

lemma two_subjects_run:
  "serialize_all Python2 required_validate [(users_value, Ada), (orders_value, Ada)]
      (User_serializer counting_registry) [] = (two_subjects, two_subjects_log)"
  by (simp add: demo_defs call_defs two_subjects_def two_subjects_log_def)

lemma two_subjects_call:
  "JsonSerializer_call Python2 required_validate users_value Ada two_subjects two_subjects_log
     = (Inr (Some (Ada_frame 2)), two_subjects, two_subjects_log)"
  by (simp add: demo_defs call_defs two_subjects_def two_subjects_log_def)

lemma users_run:
  "serialize_all Python2 required_validate [(users_value, Ada), (users_value, PyDict []), (users_value, Ada)]
      (User_serializer counting_registry) []
   = ((User_serializer counting_registry)\<lparr>schema_id := Some 1, known_subjects := {''users-value''}\<rparr>,
      users_log)"
  by (simp add: demo_defs call_defs users_log_def)

text \<open>The scenario of the specification under Python 2.7: the frame of \<^verbatim>\<open>{"name": "Ada"}\<close>.\<close>

lemma Ada_call:
  "JsonSerializer_call Python2 required_validate users_value Ada (User_serializer counting_registry) []
   = (Inr (Some (Ada_frame 1)),
      (User_serializer counting_registry)\<lparr>schema_id := Some 1, known_subjects := {''users-value''}\<rparr>,
      [\<lparr>ev_op = Register, ev_subject = ''users-value'', ev_result = Inr 1\<rparr>])"
  by (simp add: demo_defs call_defs)

lemma empty_gate:
  "ensure_registered ''users-value'' (User_serializer counting_registry) [] =
    (None,
     (User_serializer counting_registry)\<lparr>schema_id := Some 1, known_subjects := {''users-value''}\<rparr>,
     [\<lparr>ev_op = Register, ev_subject = ''users-value'', ev_result = Inr 1\<rparr>])"
  by (simp add: demo_defs call_defs)

section \<open>The claims\<close>

text \<open>
  Claim C1 (round trip). Under Python 3 the encoder does not return a frame for the
  specification's own scenario, so there is nothing to decode: the schema \<^verbatim>\<open>User\<close>,
  auto-registration on, the value \<^verbatim>\<open>{"name": "Ada"}\<close>, which satisfies the schema. The
  registry call and the validation succeed, then \<^verbatim>\<open>json.dump(value, fo, value)\<close> raises
  \<^verbatim>\<open>TypeError\<close>.
\<close>

theorem C1_encode_raises_TypeError:
  "required_validate Ada (parsed_schema (User_serializer counting_registry)) = Inr () \<and>
   JsonSerializer_call Python3 required_validate users_value Ada (User_serializer counting_registry) []
   = (Inl TypeError,
      (User_serializer counting_registry)\<lparr>schema_id := Some 1, known_subjects := {''users-value''}\<rparr>,
      [\<lparr>ev_op = Register, ev_subject = ''users-value'', ev_result = Inr 1\<rparr>])"
  by (simp add: demo_defs call_defs)

text \<open>The encoder's half of claim C2: \<^verbatim>\<open>None\<close> is returned for \<^verbatim>\<open>None\<close>, nothing else happens.\<close>

lemma JsonSerializer_call_None:
  "JsonSerializer_call py validate ctx PyNone self log = (Inr None, self, log)"
  by (simp add: JsonSerializer_call_def)

text \<open>
  Claim C2 (null propagation), the decoder's half. The decoder has no check for
  \<^verbatim>\<open>None\<close>: its first statement is \<^verbatim>\<open>len(value)\<close>, and \<^verbatim>\<open>len(None)\<close> raises \<^verbatim>\<open>TypeError\<close>.
\<close>

theorem C2_decode_None_raises_TypeError:
  "JsonDeserializer_call json_loads self ctx None = Inl TypeError"
  by (simp add: JsonDeserializer_call_def)

text \<open>
  Claim C3 (frame validity). When a call of the encoder returns a frame, the frame has
  at least five bytes, its first byte is the magic marker, and its bytes 1 to 4 read
  big-endian are the schema id cached in the serializer after the call; when the call
  went to the registry, that id is the one the registry returned to it.
\<close>

theorem C3_frame_validity:
  assumes "JsonSerializer_call py validate ctx obj self log = (Inr (Some frame), self', log')"
  shows "5 \<le> length frame \<and> uint (frame ! 0) = MAGIC_BYTE \<and>
         (\<exists>i. schema_id self' = Some i \<and> big_endian_u32 (take 4 (drop 1 frame)) = i \<and>
              (log' \<noteq> log \<longrightarrow> ev_result (last log') = Inr i))"
proof -
  from assms obtain subject where
    g: "ensure_registered subject self log = (None, self', log')"
    and f: "frame_value py validate ctx obj self' = Inr frame"
    by (auto simp: JsonSerializer_call_def split: if_splits sum.splits prod.splits option.splits)
  from frame_value_Inr [OF f] obtain i where i: "schema_id self' = Some i" "5 < length frame"
     "frame ! 0 = word_of_int MAGIC_BYTE" "big_endian_u32 (take 4 (drop 1 frame)) = i" by blast
  from ensure_registered_None [OF g] i(1) have "log' \<noteq> log \<longrightarrow> ev_result (last log') = Inr i"
    by auto
  with i show ?thesis by (simp add: MAGIC_BYTE_def)
qed

theorem C3_frame_validity_witness:
  "JsonSerializer_call Python2 required_validate users_value Ada (User_serializer counting_registry) []
   = (Inr (Some (Ada_frame 1)),
      (User_serializer counting_registry)\<lparr>schema_id := Some 1, known_subjects := {''users-value''}\<rparr>,
      [\<lparr>ev_op = Register, ev_subject = ''users-value'', ev_result = Inr 1\<rparr>]) \<and>
   5 \<le> length (Ada_frame 1) \<and> uint (Ada_frame 1 ! 0) = MAGIC_BYTE \<and>
   big_endian_u32 (take 4 (drop 1 (Ada_frame 1))) = 1"
  using C3_frame_validity [OF Ada_call] Ada_call by simp

text \<open>
  Claim C4 (short buffers). A buffer of at most five bytes is rejected with the
  too-small \<^verbatim>\<open>SerializationError\<close>, whatever the JSON parser and the materializer are:
  neither the magic byte nor the payload is looked at.
\<close>

theorem C4_short_buffer_rejected:
  "length bs \<le> 5 \<Longrightarrow>
     JsonDeserializer_call json_loads self ctx (Some bs) = Inl (SerializationError (TooSmall bs))"
  by (simp add: JsonDeserializer_call_def)

theorem C4_short_buffer_rejected_witness:
  "length [0, 0 :: byte] \<le> 5 \<and>
   JsonDeserializer_call (\<lambda>bs. Inr PyNone) \<lparr>d_schema = PyNone, from_dict = None\<rparr>
       \<lparr>topic = ''t'', field = ''value''\<rparr> (Some [0, 0])
     = Inl (SerializationError (TooSmall [0, 0]))"
  using C4_short_buffer_rejected [of "[0, 0 :: byte]" "\<lambda>bs. Inr PyNone"
      "\<lparr>d_schema = PyNone, from_dict = None\<rparr>" "\<lparr>topic = ''t'', field = ''value''\<rparr>"]
  by simp

text \<open>
  Claim C5 (magic byte), as stated: a buffer of at least five bytes whose first byte is
  not the marker fails with the magic-byte error. It does not hold for a buffer of
  exactly five bytes, which the length check rejects first.
\<close>

theorem C5_five_bytes_counterexample:
  "5 \<le> length [1, 0, 0, 0, 1 :: byte] \<and> uint (hd [1, 0, 0, 0, 1 :: byte]) \<noteq> MAGIC_BYTE \<and>
   JsonDeserializer_call (\<lambda>bs. Inr PyNone) \<lparr>d_schema = PyNone, from_dict = None\<rparr>
       \<lparr>topic = ''t'', field = ''value''\<rparr> (Some [1, 0, 0, 0, 1])
     = Inl (SerializationError (TooSmall [1, 0, 0, 0, 1])) \<and>
   JsonDeserializer_call (\<lambda>bs. Inr PyNone) \<lparr>d_schema = PyNone, from_dict = None\<rparr>
       \<lparr>topic = ''t'', field = ''value''\<rparr> (Some [1, 0, 0, 0, 1])
     \<noteq> Inl (SerializationError NoMagicByte)"
  by (simp add: JsonDeserializer_call_def MAGIC_BYTE_def)

text \<open>
  Claim C5, amended: a buffer of more than five bytes whose first byte is not the
  marker fails with the magic-byte error, whatever the remaining bytes, the JSON
  parser and the materializer are.
\<close>

theorem C5_bad_magic_rejected:
  "5 < length bs \<Longrightarrow> uint (hd bs) \<noteq> MAGIC_BYTE \<Longrightarrow>
     JsonDeserializer_call json_loads self ctx (Some bs) = Inl (SerializationError NoMagicByte)"
  by (auto simp: JsonDeserializer_call_def struct_unpack_bI_take5 MAGIC_BYTE_def sint_byte_eq_0)

theorem C5_bad_magic_rejected_witness:
  "5 < length [1, 0, 0, 0, 1, 123, 125 :: byte] \<and>
   uint (hd [1, 0, 0, 0, 1, 123, 125 :: byte]) \<noteq> MAGIC_BYTE \<and>
   JsonDeserializer_call (\<lambda>bs. Inr PyNone) \<lparr>d_schema = PyNone, from_dict = None\<rparr>
       \<lparr>topic = ''t'', field = ''value''\<rparr> (Some [1, 0, 0, 0, 1, 123, 125])
     = Inl (SerializationError NoMagicByte)"
  using C5_bad_magic_rejected [of "[1, 0, 0, 0, 1, 123, 125]" "\<lambda>bs. Inr PyNone"
      "\<lparr>d_schema = PyNone, from_dict = None\<rparr>" "\<lparr>topic = ''t'', field = ''value''\<rparr>"]
  by (simp add: MAGIC_BYTE_def)

text \<open>
  Claim C6 (cache idempotence), as stated: encoding N messages for one subject makes
  at most one registry call. It does not hold when the registry call raises: the
  subject is then not cached, and the next call of the encoder asks the registry
  again. Here the registry is down and two messages make two calls.
\<close>

theorem C6_registry_down_counterexample:
  "subject_name_func (User_serializer down_registry) users_value
     (schema_name (User_serializer down_registry)) = Inr ''users-value'' \<and>
   length (snd (serialize_all Python2 required_validate [(users_value, Ada), (users_value, Ada)]
                  (User_serializer down_registry) [])) = 2 \<and>
   \<not> length (snd (serialize_all Python2 required_validate [(users_value, Ada), (users_value, Ada)]
                  (User_serializer down_registry) [])) \<le> 1"
  by (simp add: demo_defs call_defs)

text \<open>
  Claim C6, amended: for a serializer that has cached no subject yet and any sequence
  of encoder calls whose contexts all resolve to one subject, at most one registry call
  returns an id, and it is the last registry call made: after it the subject is cached
  and the registry is not called again. Every registry call before it raised.
\<close>

theorem C6_at_most_one_returning_call:
  assumes "known_subjects self = {}"
    and "\<forall>(ctx, obj) \<in> set inputs. subject_name_func self ctx (schema_name self) = Inr subject"
    and "serialize_all py validate inputs self [] = (self', log')"
  shows "length (filter (\<lambda>ev. \<not> isl (ev_result ev)) log') \<le> 1 \<and>
         (\<forall>i < length log'. \<not> isl (ev_result (log' ! i)) \<longrightarrow> Suc i = length log')"
proof -
  from assms(1) have "one_subject_inv subject self []"
    by (simp add: one_subject_inv_def)
  from serialize_all_one_subject_inv [OF this assms(2,3)]
  show ?thesis by (rule one_subject_inv_returned)
qed

theorem C6_at_most_one_returning_call_witness:
  "known_subjects (User_serializer counting_registry) = {} \<and>
   serialize_all Python2 required_validate [(users_value, Ada), (users_value, PyDict []), (users_value, Ada)]
      (User_serializer counting_registry) []
   = ((User_serializer counting_registry)\<lparr>schema_id := Some 1, known_subjects := {''users-value''}\<rparr>,
      users_log) \<and>
   length (filter (\<lambda>ev. \<not> isl (ev_result ev)) users_log) \<le> 1 \<and> length users_log = 1"
proof -
  have a: "known_subjects (User_serializer counting_registry) = {}"
    by (simp add: User_serializer_def)
  have b: "\<forall>(ctx, obj) \<in> set [(users_value, Ada), (users_value, PyDict []), (users_value, Ada)].
     subject_name_func (User_serializer counting_registry) ctx
        (schema_name (User_serializer counting_registry)) = Inr ''users-value''"
    by (simp add: demo_defs)
  from C6_at_most_one_returning_call [OF a b users_run]
  have "length (filter (\<lambda>ev. \<not> isl (ev_result ev)) users_log) \<le> 1" by blast
  moreover have "length users_log = 1" by (simp add: users_log_def)
  ultimately show ?thesis using a users_run by blast
qed

text \<open>
  Claim C7 (validation gate), as stated: every value whose structured form violates
  the schema makes the encoder fail with the validator's message. It does not hold
  when a step before the validation raises: here the value \<^verbatim>\<open>{}\<close> misses the required
  property, the subject is not cached and the registry is down, and the encoder fails
  with the registry's error.
\<close>

theorem C7_registry_down_counterexample:
  "required_validate (PyDict []) (parsed_schema (User_serializer down_registry))
     = Inl (ValidationError ''a required property is missing'') \<and>
   fst (JsonSerializer_call Python2 required_validate users_value (PyDict [])
          (User_serializer down_registry) [])
     = Inl (RegistryError ''unavailable'') \<and>
   fst (JsonSerializer_call Python2 required_validate users_value (PyDict [])
          (User_serializer down_registry) [])
     \<noteq> Inl (SerializationError (Violation ''a required property is missing''))"
  by (simp add: demo_defs call_defs)

text \<open>
  Claim C7, amended: for a value other than \<^verbatim>\<open>None\<close>, when the subject is resolved,
  the registration gate passes and the projection yields a structured value that the
  validator rejects with a message, the encoder fails with a \<^verbatim>\<open>SerializationError\<close>
  carrying that message; it returns no bytes, and the serializer and the registry log
  are as the gate left them: no registry call is made after the validation.
\<close>

theorem C7_validation_gate:
  assumes "obj \<noteq> PyNone"
    and "subject_name_func self ctx (schema_name self) = Inr subject"
    and "ensure_registered subject self log = (None, self', log')"
    and "(case to_dict self of None \<Rightarrow> Inr obj | Some f \<Rightarrow> f ctx obj) = Inr v"
    and "validate v (parsed_schema self) = Inl (ValidationError m)"
  shows "JsonSerializer_call py validate ctx obj self log
           = (Inl (SerializationError (Violation m)), self', log')"
proof -
  from ensure_registered_fields [OF assms(3)]
  have "to_dict self' = to_dict self" "parsed_schema self' = parsed_schema self" by simp_all
  with assms(4,5) have "frame_value py validate ctx obj self' = Inl (SerializationError (Violation m))"
    by (simp add: frame_value_def except_ValidationError_def)
  with assms(1,2,3) show ?thesis by (simp add: JsonSerializer_call_def)
qed

theorem C7_validation_gate_witness:
  "PyDict [] \<noteq> PyNone \<and>
   subject_name_func (User_serializer counting_registry) users_value
       (schema_name (User_serializer counting_registry)) = Inr ''users-value'' \<and>
   ensure_registered ''users-value'' (User_serializer counting_registry) [] =
    (None,
     (User_serializer counting_registry)\<lparr>schema_id := Some 1, known_subjects := {''users-value''}\<rparr>,
     [\<lparr>ev_op = Register, ev_subject = ''users-value'', ev_result = Inr 1\<rparr>]) \<and>
   required_validate (PyDict []) (parsed_schema (User_serializer counting_registry))
     = Inl (ValidationError ''a required property is missing'') \<and>
   JsonSerializer_call Python2 required_validate users_value (PyDict []) (User_serializer counting_registry) []
     = (Inl (SerializationError (Violation ''a required property is missing'')),
        (User_serializer counting_registry)\<lparr>schema_id := Some 1, known_subjects := {''users-value''}\<rparr>,
        [\<lparr>ev_op = Register, ev_subject = ''users-value'', ev_result = Inr 1\<rparr>])"
proof -
  have a: "PyDict [] \<noteq> PyNone" by simp
  have b: "subject_name_func (User_serializer counting_registry) users_value
       (schema_name (User_serializer counting_registry)) = Inr ''users-value''"
    by (simp add: demo_defs)
  have d: "(case to_dict (User_serializer counting_registry) of
              None \<Rightarrow> Inr (PyDict []) | Some f \<Rightarrow> f users_value (PyDict [])) = Inr (PyDict [])"
    by (simp add: demo_defs)
  have e: "required_validate (PyDict []) (parsed_schema (User_serializer counting_registry))
     = Inl (ValidationError ''a required property is missing'')"
    by (simp add: demo_defs)
  from C7_validation_gate [where validate = required_validate and py = Python2 and v = "PyDict []",
      OF a b empty_gate d e] a b empty_gate e
  show ?thesis by blast
qed

text \<open>
  Claim C8 (construction), as stated: construction fails with a configuration error
  exactly when one of the five conditions holds, and succeeds otherwise. It does not
  hold for a schema text that is not a JSON object: the boolean schema \<^verbatim>\<open>true\<close> has no
  title, and construction fails on it with \<^verbatim>\<open>AttributeError\<close> at
  \<^verbatim>\<open>schema_dict.get\<close>, not with the \<^verbatim>\<open>ValueError\<close> of the configuration checks.
\<close>

theorem C8_boolean_schema_counterexample:
  "true_loads ''true'' = Inr (PyBool True) \<and>
   JsonSerializer_init true_loads counting_registry ''true'' (Plain PyNone) None
     = Inl AttributeError"
  by (simp add: JsonSerializer_init_def default_conf_def dict_pop_def as_bool_def as_callable_def
        get_title_def callable_def true_loads_def)

text \<open>
  Claim C8, amended: for a schema text that parses to a JSON object, with \<open>cc\<close> the
  defaults updated by the supplied configuration, construction raises \<^verbatim>\<open>ValueError\<close>
  exactly when the schema has no title (or a null one), a supplied \<^verbatim>\<open>to_dict\<close> is not
  callable, the subject-name strategy is not callable, the auto-register flag is not a
  boolean, or the configuration has a key other than the two known ones. Otherwise it
  returns a serializer with no schema id, no cached subject, and the flag and the
  strategy of \<open>cc\<close>; the defaults are \<^verbatim>\<open>True\<close> and the topic-based strategy.
\<close>

theorem C8_construction:
  fixes cc :: conf
  assumes "json_loads schema_str = Inr (PyDict kvs)"
    and "cc = (case conf_arg of None \<Rightarrow> default_conf | Some c \<Rightarrow> default_conf ++ c)"
  shows "((\<exists>msg. JsonSerializer_init json_loads client schema_str to_dict_arg conf_arg
                   = Inl (ValueError msg)) \<longleftrightarrow>
            (map_of kvs (PyStr ''title'') = None \<or> map_of kvs (PyStr ''title'') = Some PyNone \<or>
             (to_dict_arg \<noteq> Plain PyNone \<and> \<not> callable to_dict_arg) \<or>
             (\<forall>f. cc ''subject.name.strategy'' \<noteq> Some (Callable f)) \<or>
             (\<forall>b. cc ''auto.register.schemas'' \<noteq> Some (Plain (PyBool b))) \<or>
             (\<exists>k \<in> dom cc. k \<noteq> ''auto.register.schemas'' \<and> k \<noteq> ''subject.name.strategy''))) \<and>
         ((\<exists>msg. JsonSerializer_init json_loads client schema_str to_dict_arg conf_arg
                   = Inl (ValueError msg)) \<or>
          (\<exists>s. JsonSerializer_init json_loads client schema_str to_dict_arg conf_arg = Inr s \<and>
               schema_id s = None \<and> known_subjects s = {} \<and>
               cc ''auto.register.schemas'' = Some (Plain (PyBool (auto_register s))) \<and>
               cc ''subject.name.strategy'' = Some (Callable (subject_name_func s)))) \<and>
         default_conf ''auto.register.schemas'' = Some (Plain (PyBool True)) \<and>
         default_conf ''subject.name.strategy'' = Some (Callable topic_subject_name_strategy)"
proof -
  obtain ar where ar: "cc ''auto.register.schemas'' = Some ar"
    using effective_conf_keys(1) [of conf_arg] assms(2) by auto
  obtain sf where sf: "cc ''subject.name.strategy'' = Some sf"
    using effective_conf_keys(2) [of conf_arg] assms(2) by auto
  have d: "default_conf ''auto.register.schemas'' = Some (Plain (PyBool True))"
    "default_conf ''subject.name.strategy'' = Some (Callable topic_subject_name_strategy)"
    by (simp_all add: default_conf_def)
  have init: "JsonSerializer_init json_loads client schema_str to_dict_arg conf_arg =
     (if to_dict_arg \<noteq> Plain PyNone \<and> \<not> callable to_dict_arg
      then Inl (ValueError ''to_dict must be callable with the signature to_dict(Serialization Context, object)->dict'')
      else (case as_bool ar of
              None \<Rightarrow> Inl (ValueError ''auto.register.schemas must be a boolean value'')
            | Some b \<Rightarrow>
               (case as_callable sf of
                  None \<Rightarrow> Inl (ValueError ''subject.name.strategy must be callable'')
                | Some f \<Rightarrow>
                    if (\<exists>k \<in> dom cc. k \<noteq> ''auto.register.schemas'' \<and> k \<noteq> ''subject.name.strategy'')
                    then Inl (ValueError ''Unrecognized properties'')
                    else if map_of kvs (PyStr ''title'') = None \<or> map_of kvs (PyStr ''title'') = Some PyNone
                    then Inl (ValueError ''Missing required JSON schema annotation Title'')
                    else Inr \<lparr>registry = client, schema_id = None, known_subjects = {},
                              to_dict = as_callable to_dict_arg, auto_register = b,
                              subject_name_func = f,
                              schema_name = the (map_of kvs (PyStr ''title'')),
                              parsed_schema = PyDict kvs,
                              schema = Schema schema_str ''JSON''\<rparr>)))"
    using ar sf assms(1) leftover_keys [of cc "''auto.register.schemas''" "''subject.name.strategy''"]
    unfolding JsonSerializer_init_def assms(2) [symmetric] Let_def dict_pop_def
    by (auto simp: get_title_dict split: option.splits)
  show ?thesis
    unfolding init using ar sf d
    by (auto simp: as_bool_None as_callable_None as_bool_Some as_callable_Some split: option.splits)
qed

theorem C8_construction_witness:
  "User_loads User_schema_str =
      Inr (PyDict [(PyStr ''title'', PyStr ''User''), (PyStr ''type'', PyStr ''object''),
         (PyStr ''properties'', PyDict [(PyStr ''name'', PyDict [(PyStr ''type'', PyStr ''string'')])]),
         (PyStr ''required'', PyList [PyStr ''name''])]) \<and>
   \<not> (\<exists>msg. JsonSerializer_init User_loads counting_registry User_schema_str
                (Plain PyNone) None = Inl (ValueError msg)) \<and>
   (\<exists>s. JsonSerializer_init User_loads counting_registry User_schema_str
                (Plain PyNone) None = Inr s \<and>
        schema_id s = None \<and> known_subjects s = {} \<and> auto_register s = True \<and>
        subject_name_func s = topic_subject_name_strategy)"
proof -
  have h: "User_loads User_schema_str =
      Inr (PyDict [(PyStr ''title'', PyStr ''User''), (PyStr ''type'', PyStr ''object''),
         (PyStr ''properties'', PyDict [(PyStr ''name'', PyDict [(PyStr ''type'', PyStr ''string'')])]),
         (PyStr ''required'', PyList [PyStr ''name''])])"
    by (simp add: User_loads_def User_schema_def)
  have k: "\<not> (\<exists>k \<in> dom default_conf. k \<noteq> ''auto.register.schemas'' \<and> k \<noteq> ''subject.name.strategy'')"
    by (auto simp: default_conf_def split: if_splits)
  have b: "\<not> (\<forall>b. default_conf ''auto.register.schemas'' \<noteq> Some (Plain (PyBool b)))"
    by (auto simp: default_conf_def)
  have f: "\<not> (\<forall>f. default_conf ''subject.name.strategy'' \<noteq> Some (Callable f))"
    by (auto simp: default_conf_def)
  note t = C8_construction [where json_loads = User_loads and schema_str = User_schema_str and conf_arg = None
      and client = counting_registry and to_dict_arg = "Plain PyNone", OF h refl]
  from t k b f have n: "\<not> (\<exists>msg. JsonSerializer_init User_loads counting_registry User_schema_str
                (Plain PyNone) None = Inl (ValueError msg))"
    by simp
  from t n obtain s where s: "JsonSerializer_init User_loads counting_registry User_schema_str
                (Plain PyNone) None = Inr s" "schema_id s = None" "known_subjects s = {}"
      "default_conf ''auto.register.schemas'' = Some (Plain (PyBool (auto_register s)))"
      "default_conf ''subject.name.strategy'' = Some (Callable (subject_name_func s))"
    by auto
  from s(4,5) have "auto_register s = True" "subject_name_func s = topic_subject_name_strategy"
    by (simp_all add: default_conf_def)
  with s(1,2,3) h n show ?thesis by blast
qed

text \<open>
  Claim C9 (one cached schema id). A serializer has one \<open>schema_id\<close> field. After any
  sequence of encoder calls on a new serializer, the cached id is the id returned by
  the most recent registry call that returned one; and an encoder call for a subject
  that is already cached makes no registry call, leaves the cached id as it is and, when
  it returns a frame, frames that id, whichever subject the id was returned for.
\<close>

theorem C9_single_cached_id:
  assumes "schema_id self0 = None"
    and "serialize_all py validate inputs self0 [] = (self, log)"
  shows "schema_id self = last_returned_id log \<and>
         (\<forall>ctx obj subject frame self' log'.
            subject_name_func self ctx (schema_name self) = Inr subject \<and>
            subject \<in> known_subjects self \<and>
            JsonSerializer_call py validate ctx obj self log = (Inr (Some frame), self', log')
            \<longrightarrow> log' = log \<and> schema_id self' = schema_id self \<and>
                (\<exists>i. last_returned_id log = Some i \<and> big_endian_u32 (take 4 (drop 1 frame)) = i))"
proof -
  from assms(1) have "schema_id self0 = last_returned_id []" by simp
  from serialize_all_keeps_last_id [OF this assms(2)]
  have inv: "schema_id self = last_returned_id log" .
  show ?thesis
  proof (intro conjI allI impI)
    show "schema_id self = last_returned_id log" by (rule inv)
  next
    fix ctx obj subject frame self' log'
    assume h: "subject_name_func self ctx (schema_name self) = Inr subject \<and>
            subject \<in> known_subjects self \<and>
            JsonSerializer_call py validate ctx obj self log = (Inr (Some frame), self', log')"
    then have a: "subject_name_func self ctx (schema_name self) = Inr subject"
      and b: "subject \<in> known_subjects self"
      and c: "JsonSerializer_call py validate ctx obj self log = (Inr (Some frame), self', log')"
      by blast+
    note r = cached_call_frames_cached_id [OF a b c]
    from r show "log' = log" by blast
    from r show "schema_id self' = schema_id self" by simp
    from r inv show "\<exists>i. last_returned_id log = Some i \<and> big_endian_u32 (take 4 (drop 1 frame)) = i"
      by auto
  qed
qed

theorem C9_single_cached_id_witness:
  "schema_id (User_serializer counting_registry) = None \<and>
   serialize_all Python2 required_validate [(users_value, Ada), (orders_value, Ada)]
      (User_serializer counting_registry) [] = (two_subjects, two_subjects_log) \<and>
   ev_subject (last two_subjects_log) = ''orders-value'' \<and>
   subject_name_func two_subjects users_value (schema_name two_subjects) = Inr ''users-value'' \<and>
   ''users-value'' \<in> known_subjects two_subjects \<and>
   JsonSerializer_call Python2 required_validate users_value Ada two_subjects two_subjects_log
     = (Inr (Some (Ada_frame 2)), two_subjects, two_subjects_log) \<and>
   schema_id two_subjects = last_returned_id two_subjects_log \<and>
   last_returned_id two_subjects_log = Some 2 \<and>
   big_endian_u32 (take 4 (drop 1 (Ada_frame 2))) = 2"
proof -
  have a: "schema_id (User_serializer counting_registry) = None"
    by (simp add: User_serializer_def)
  have b: "subject_name_func two_subjects users_value (schema_name two_subjects) = Inr ''users-value''"
    by (simp add: two_subjects_def demo_defs)
  have c: "''users-value'' \<in> known_subjects two_subjects"
    by (simp add: two_subjects_def)
  have d: "ev_subject (last two_subjects_log) = ''orders-value''"
    by (simp add: two_subjects_log_def)
  have e: "last_returned_id two_subjects_log = Some 2"
    by (simp add: two_subjects_log_def)
  note t = C9_single_cached_id [OF a two_subjects_run]
  from t have inv: "schema_id two_subjects = last_returned_id two_subjects_log" by blast
  from t b c two_subjects_call
  have "\<exists>i. last_returned_id two_subjects_log = Some i \<and>
            big_endian_u32 (take 4 (drop 1 (Ada_frame 2))) = i"
    by blast
  with e have "big_endian_u32 (take 4 (drop 1 (Ada_frame 2))) = 2" by simp
  with a two_subjects_run d b c two_subjects_call inv e show ?thesis by blast
qed

text \<open>
  Claim C10 (no encoded frame is too short). When a call of the encoder returns a
  frame, the value was not \<^verbatim>\<open>None\<close>, the frame has more than five bytes, and the decoder
  passes its length check and its magic-byte check on it: decoding the frame is parsing
  the bytes after the header and applying the materializer, if any.
\<close>

theorem C10_frame_longer_than_header:
  assumes "JsonSerializer_call py validate ctx obj self log = (Inr (Some frame), self', log')"
  shows "obj \<noteq> PyNone \<and> 5 < length frame \<and>
         JsonDeserializer_call json_loads d ctx' (Some frame) =
           (case json_loads (drop 5 frame) of
              Inl e \<Rightarrow> Inl e
            | Inr obj_dict \<Rightarrow>
                (case from_dict d of None \<Rightarrow> Inr obj_dict | Some f \<Rightarrow> f ctx' obj_dict))"
proof -
  from assms obtain subject where
    g: "ensure_registered subject self log = (None, self', log')"
    and f: "frame_value py validate ctx obj self' = Inr frame" and o: "obj \<noteq> PyNone"
    by (auto simp: JsonSerializer_call_def split: if_splits sum.splits prod.splits option.splits)
  from frame_value_Inr [OF f] have len: "5 < length frame"
    and m: "frame ! 0 = word_of_int MAGIC_BYTE" by blast+
  from len have "hd frame = frame ! 0" by (cases frame) simp_all
  with m have "sint (hd frame) = MAGIC_BYTE" by (simp add: MAGIC_BYTE_def)
  with len o show ?thesis
    by (simp add: JsonDeserializer_call_def struct_unpack_bI_take5)
qed

theorem C10_frame_longer_than_header_witness:
  "JsonSerializer_call Python2 required_validate users_value Ada (User_serializer counting_registry) []
   = (Inr (Some (Ada_frame 1)),
      (User_serializer counting_registry)\<lparr>schema_id := Some 1, known_subjects := {''users-value''}\<rparr>,
      [\<lparr>ev_op = Register, ev_subject = ''users-value'', ev_result = Inr 1\<rparr>]) \<and>
   Ada \<noteq> PyNone \<and> 5 < length (Ada_frame 1) \<and>
   JsonDeserializer_call (\<lambda>bs. Inr Ada) \<lparr>d_schema = User_schema, from_dict = None\<rparr> users_value
       (Some (Ada_frame 1)) = Inr Ada"
  using C10_frame_longer_than_header [OF Ada_call, of "\<lambda>bs. Inr Ada"
      "\<lparr>d_schema = User_schema, from_dict = None\<rparr>" users_value] Ada_call
  by simp

end
